theory Spec2Isabelle
  imports Main
begin

section \<open>Python values, exceptions and truthiness\<close>

text \<open>
  The exceptions that the routes of \<^verbatim>\<open>schematic_api/api/routes.py\<close> can raise. An
  exception raised by a collaborator outside the module (the manifest generator, the
  metadata model, the schema generator, Flask, pandas) is \<open>CollaboratorError\<close>.
  A function that can raise returns \<open>py_error + 'a\<close> with \<open>Inl\<close> for the raise.
\<close>

datatype py_error =
    ValueError string
  | TypeError string
  | IndexError
  | KeyError string
  | FileNotFoundError string
  | UnboundLocalError string
  | CollaboratorError string

text \<open>Sequencing of two fallible steps: the first raise wins.\<close>

definition and_then :: "py_error + 'a \<Rightarrow> ('a \<Rightarrow> py_error + 'b) \<Rightarrow> py_error + 'b" where
  "and_then m f = (case m of Inl e \<Rightarrow> Inl e | Inr x \<Rightarrow> f x)"

text \<open>
  Truthiness as Python's \<^verbatim>\<open>if x:\<close> reads it: a string or a list is true when it is
  not empty, \<^verbatim>\<open>None\<close> is false, a bool is itself.
\<close>

definition truthy :: "'a list \<Rightarrow> bool" where
  "truthy xs = (xs \<noteq> [])"

definition truthy_opt :: "'a list option \<Rightarrow> bool" where
  "truthy_opt v = (case v of None \<Rightarrow> False | Some xs \<Rightarrow> truthy xs)"

definition truthy_opt_bool :: "bool option \<Rightarrow> bool" where
  "truthy_opt_bool v = (case v of None \<Rightarrow> False | Some b \<Rightarrow> b)"

text \<open>
  \<^verbatim>\<open>xs[0]\<close>: IndexError on the empty list.
\<close>

definition first_item :: "'a list \<Rightarrow> py_error + 'a" where
  "first_item xs = (case xs of [] \<Rightarrow> Inl IndexError | x # _ \<Rightarrow> Inr x)"

text \<open>
  \<^verbatim>\<open>xs[i]\<close> for the non-negative index of an \<^verbatim>\<open>enumerate\<close> loop.
\<close>

definition item_at :: "'a list \<Rightarrow> nat \<Rightarrow> py_error + 'a" where
  "item_at xs i = (if i < length xs then Inr (xs ! i) else Inl IndexError)"

text \<open>
  \<^verbatim>\<open>str.lower()\<close> and \<^verbatim>\<open>str.startswith\<close>. Strings are byte strings here; \<open>lower\<close> maps
  the letters A to Z to a to z and leaves every other byte alone. No character
  outside ASCII lower-cases to a string starting with \<^verbatim>\<open>t\<close> or \<^verbatim>\<open>f\<close>, so the
  prefix tests of \<open>parse_bool\<close> read the same on the bytes.
\<close>

definition lower_char :: "char \<Rightarrow> char" where
  "lower_char c =
     (case map_of (zip ''ABCDEFGHIJKLMNOPQRSTUVWXYZ'' ''abcdefghijklmnopqrstuvwxyz'') c of
        None \<Rightarrow> c
      | Some l \<Rightarrow> l)"

definition lower :: "string \<Rightarrow> string" where
  "lower s = map lower_char s"

definition startswith :: "string \<Rightarrow> string \<Rightarrow> bool" where
  "startswith s p = (take (length p) s = p)"

section \<open>parse_bool\<close>

text \<open>
  \<^verbatim>\<open>
  def parse_bool(str_bool):
      if str_bool.lower().startswith('t'):
          return True
      elif str_bool.lower().startswith('f'):
          return False
      else:
          raise ValueError(
              "String boolean does not appear to be true or false. Please verify input."
          )
  \<close>
\<close>

definition parse_bool_message :: string where
  "parse_bool_message =
     ''String boolean does not appear to be true or false. Please verify input.''"

definition parse_bool :: "string \<Rightarrow> py_error + bool" where
  "parse_bool str_bool =
     (if startswith (lower str_bool) ''t'' then Inr True
      else if startswith (lower str_bool) ''f'' then Inr False
      else Inl (ValueError parse_bool_message))"

section \<open>The ManifestGeneration model\<close>

text \<open>
  \<^verbatim>\<open>
  class ManifestGeneration(BaseModel):
      schema_url: str
      access_token: Optional[str] = ''
      asset_view: Optional[str] = ''
      dataset_id: List[str] = []
      data_type: List[str] = []
      title: Optional[str] = ''
      output_format: Optional[str] = "excel"
      use_annotations: Optional[bool] = False
  \<close>
\<close>

record ManifestGeneration =
  schema_url :: string
  access_token :: "string option"
  asset_view :: "string option"
  dataset_id :: "string list"
  data_type :: "string list"
  title :: "string option"
  output_format :: "string option"
  use_annotations :: "bool option"

text \<open>
  \<^verbatim>\<open>
  def _get_manifest_title(self, single_data_type:str='') -> str:
      if self.title:
          t = f'{self.title}.{single_data_type}.manifest'
      else:
          t = f'Example.{single_data_type}.manifest'
      return t
  \<close>
\<close>

definition get_manifest_title :: "ManifestGeneration \<Rightarrow> string \<Rightarrow> string" where
  "get_manifest_title self single_data_type =
     (if truthy_opt (title self)
      then the (title self) @ ''.'' @ single_data_type @ ''.manifest''
      else ''Example.'' @ single_data_type @ ''.manifest'')"

section \<open>The collaborators of manifest generation\<close>

text \<open>
  The keyword arguments with which \<open>create_single_manifest\<close> reaches the manifest
  generator: those of the constructor \<^verbatim>\<open>ManifestGenerator(path_to_json_ld, title, root,
  use_annotations)\<close> and those of \<^verbatim>\<open>get_manifest(dataset_id, output_format,
  access_token)\<close>.
\<close>

record generator_call =
  gc_path_to_json_ld :: string
  gc_title :: string
  gc_root :: string
  gc_use_annotations :: "bool option"
  gc_dataset_id :: string
  gc_output_format :: "string option"
  gc_access_token :: "string option"

text \<open>
  What lies outside the module, as parameters. \<open>'a\<close> is what the generator returns (a
  sheet URL, a data frame or the path of an Excel file) and what Flask's
  \<^verbatim>\<open>send_from_directory\<close> makes of such a path.
  \<^item> \<open>app_config\<close>: Flask's \<^verbatim>\<open>app.config\<close>;
  \<^item> \<open>isfile\<close>: \<^verbatim>\<open>os.path.isfile\<close>;
  \<^item> \<open>load_config\<close>: \<^verbatim>\<open>CONFIG.load_config(path, asset_view=...)\<close>;
  \<^item> \<open>fetch_jsonld\<close>: the download of \<open>get_temp_jsonld\<close>, giving the temporary file's name;
  \<^item> \<open>requires_component_nodes\<close>: the schema at a path to
    \<^verbatim>\<open>list(sg.se.get_digraph_by_edge_type('requiresComponent').nodes())\<close>;
  \<^item> \<open>get_manifest\<close>: the generator, constructed and asked for a manifest;
  \<^item> \<open>send_from_directory\<close>: the attachment response for the file at a path.
\<close>

record infrastructure =
  app_config :: "string \<rightharpoonup> string"
  isfile :: "string \<Rightarrow> bool"
  load_config :: "string \<Rightarrow> string option \<Rightarrow> py_error + unit"
  fetch_jsonld :: "string \<Rightarrow> py_error + string"

record 'a generation_env = infrastructure +
  requires_component_nodes :: "string \<Rightarrow> py_error + string list"
  get_manifest :: "generator_call \<Rightarrow> py_error + 'a"
  send_from_directory :: "'a \<Rightarrow> py_error + 'a"

text \<open>
  What a request leaves behind: the warnings written to \<^verbatim>\<open>app.logger\<close> and the calls
  made to the manifest generator, both in order.
\<close>

record effects =
  warnings :: "string list"
  generator_calls :: "generator_call list"

definition no_effects :: effects where
  "no_effects = \<lparr>warnings = [], generator_calls = []\<rparr>"

definition logger_warning :: "string \<Rightarrow> effects \<Rightarrow> effects" where
  "logger_warning msg w = w\<lparr>warnings := warnings w @ [msg]\<rparr>"

text \<open>
  \<^verbatim>\<open>
  def config_handler(asset_view: str=None):
      path_to_config = app.config["SCHEMATIC_CONFIG"]
      if os.path.isfile(path_to_config):
          CONFIG.load_config(path_to_config, asset_view = asset_view)
      else:
          raise FileNotFoundError(
              f"No configuration file was found at this path: {path_to_config}"
          )
  \<close>
\<close>

definition config_handler ::
  "'z infrastructure_scheme \<Rightarrow> string option \<Rightarrow> py_error + unit" where
  "config_handler env asset_view_arg =
     (case app_config env ''SCHEMATIC_CONFIG'' of
        None \<Rightarrow> Inl (KeyError ''SCHEMATIC_CONFIG'')
      | Some path_to_config \<Rightarrow>
          if isfile env path_to_config
          then load_config env path_to_config asset_view_arg
          else Inl (FileNotFoundError
                 (''No configuration file was found at this path: '' @ path_to_config)))"

definition get_temp_jsonld :: "'z infrastructure_scheme \<Rightarrow> string \<Rightarrow> py_error + string" where
  "get_temp_jsonld env url = fetch_jsonld env url"

text \<open>\<^verbatim>\<open>_load_config_\<close>: \<^verbatim>\<open>config_handler(asset_view = self.asset_view)\<close>.\<close>

definition mg_load_config ::
  "'z infrastructure_scheme \<Rightarrow> ManifestGeneration \<Rightarrow> py_error + unit" where
  "mg_load_config env self = config_handler env (asset_view self)"

text \<open>
  \<^verbatim>\<open>
  def _check_dataset_match_datatype_(self) -> None:
      len_data_types = len(self.data_type)
      len_dataset_ids = len(self.dataset_id)
      try:
          len_data_types == len_dataset_ids
      except:
          raise ValueError(
                  f"There is a mismatch in the number of data_types and dataset_id's that "
                  f"submitted. Please check your submission and try again."
              )
  \<close>
  The body of the \<^verbatim>\<open>try\<close> compares two integers and drops the result. The comparison
  cannot raise, so the handler never runs.
\<close>

definition mismatch_message :: string where
  "mismatch_message =
     ''There is a mismatch in the number of data_types and dataset_id's that '' @
     ''submitted. Please check your submission and try again.''"

definition try_expression :: "py_error + 'b \<Rightarrow> py_error \<Rightarrow> py_error + unit" where
  \<comment> \<open>\<^verbatim>\<open>try: <expression> except: raise <error>\<close>, the expression's value dropped\<close>
  "try_expression body handler = (case body of Inl _ \<Rightarrow> Inl handler | Inr _ \<Rightarrow> Inr ())"

definition check_dataset_match_datatype :: "ManifestGeneration \<Rightarrow> py_error + unit" where
  "check_dataset_match_datatype self =
     (let len_data_types = length (data_type self);
          len_dataset_ids = length (dataset_id self)
      in try_expression (Inr (len_data_types = len_dataset_ids)) (ValueError mismatch_message))"

text \<open>
  A call of a bound method that declares \<open>declared\<close> positional parameters after
  \<^verbatim>\<open>self\<close>, none with a default, with \<open>given\<close> positional arguments: Python raises
  TypeError before the body runs unless the two numbers agree.
\<close>

definition call_method :: "nat \<Rightarrow> nat \<Rightarrow> py_error + 'b \<Rightarrow> py_error + 'b" where
  "call_method declared given body =
     (if given = declared then body
      else Inl (TypeError ''wrong number of positional arguments''))"

section \<open>Generating manifests\<close>

text \<open>
  \<^verbatim>\<open>
  def create_single_manifest(self, single_data_type:str='', single_dataset_id:str='', title:str=''):
      manifest_generator = ManifestGenerator(
          path_to_json_ld=self.schema_url,
          title=title,
          root=single_data_type,
          use_annotations=self.use_annotations
      )
      result = manifest_generator.get_manifest(
              dataset_id=single_dataset_id, output_format=self.output_format, access_token=self.access_token
      )
      if self.output_format == "excel":
          dir_name = os.path.dirname(result)
          file_name = os.path.basename(result)
          mimetype='application/vnd.openxmlformats-officedocument.spreadsheetml.sheet'
          return send_from_directory(directory=dir_name, path=file_name, as_attachment=True, mimetype=mimetype, max_age=0)
      return result
  \<close>
  The call is recorded whether or not the generator raises.
\<close>

definition generator_call_of ::
  "ManifestGeneration \<Rightarrow> string \<Rightarrow> string \<Rightarrow> string \<Rightarrow> generator_call" where
  "generator_call_of self single_data_type single_dataset_id title_arg =
     \<lparr>gc_path_to_json_ld = schema_url self, gc_title = title_arg,
      gc_root = single_data_type, gc_use_annotations = use_annotations self,
      gc_dataset_id = single_dataset_id, gc_output_format = output_format self,
      gc_access_token = access_token self\<rparr>"

definition create_single_manifest ::
  "('a, 'z) generation_env_scheme \<Rightarrow> ManifestGeneration \<Rightarrow> string \<Rightarrow> string \<Rightarrow> string \<Rightarrow>
     effects \<Rightarrow> (py_error + 'a) \<times> effects" where
  "create_single_manifest env self single_data_type single_dataset_id title_arg w =
     (let call = generator_call_of self single_data_type single_dataset_id title_arg;
          w' = w\<lparr>generator_calls := generator_calls w @ [call]\<rparr>
      in (case get_manifest env call of
            Inl e \<Rightarrow> (Inl e, w')
          | Inr result \<Rightarrow>
              if output_format self = Some ''excel''
              then (send_from_directory env result, w')
              else (Inr result, w')))"

text \<open>
  What \<open>generate_manifest_and_collect_outputs\<close> returns: the attachment of the Excel
  branch, or the list \<^verbatim>\<open>all_outputs\<close> of the other branch.
\<close>

datatype 'a outputs = Attachment 'a | Collected "'a list"

definition excel_warning_components :: "string \<Rightarrow> string" where
  "excel_warning_components t =
     ''Currently we do not support returning multiple files as Excel format at once. Only '' @
     t @ '' would get returned. ''"

definition excel_warning_dataset :: "string \<Rightarrow> string \<Rightarrow> string" where
  "excel_warning_dataset d t =
     ''Currently we do not support returning multiple files as Excel format at once. '' @
     ''Only manifest generated by using dataset id '' @ d @
     '' would get returned with title '' @ t"

text \<open>
  The loop of the branch for Google sheets and data frames, at position \<open>i\<close> with the
  outputs collected so far:
  \<^verbatim>\<open>
  all_outputs = []
  for i, dt in enumerate(data_type_lst):
      t = self._get_manifest_title(single_data_type=dt)
      if dataset_id:
          output = self.create_single_manifest(single_data_type=dt, single_dataset_id=dataset_id[i], title=t)
      else:
          output = self.create_single_manifest(single_data_type=dt, title=t)
      all_outputs.append(output)
  return all_outputs
  \<close>
\<close>

fun collect_outputs ::
  "('a, 'z) generation_env_scheme \<Rightarrow> ManifestGeneration \<Rightarrow> string list \<Rightarrow> nat \<Rightarrow> string list \<Rightarrow>
     'a list \<Rightarrow> effects \<Rightarrow> (py_error + 'a list) \<times> effects" where
  "collect_outputs env self dataset_ids i [] all_outputs w = (Inr all_outputs, w)"
| "collect_outputs env self dataset_ids i (dt # rest) all_outputs w =
     (let t = get_manifest_title self dt in
      if truthy dataset_ids then
        (case item_at dataset_ids i of
           Inl e \<Rightarrow> (Inl e, w)
         | Inr d \<Rightarrow>
             (case create_single_manifest env self dt d t w of
                (Inl e, w') \<Rightarrow> (Inl e, w')
              | (Inr output, w') \<Rightarrow>
                  collect_outputs env self dataset_ids (Suc i) rest (all_outputs @ [output]) w'))
      else
        (case create_single_manifest env self dt [] t w of
           (Inl e, w') \<Rightarrow> (Inl e, w')
         | (Inr output, w') \<Rightarrow>
             collect_outputs env self dataset_ids (Suc i) rest (all_outputs @ [output]) w'))"

text \<open>
  \<^verbatim>\<open>
  def generate_manifest_and_collect_outputs(self, data_type_lst: List[str], dataset_id: List[str]=[]):
      if self.output_format == "excel":
          t = self._get_manifest_title(single_data_type=data_type_lst[0])
          if len(data_type_lst) > 1:
              app.logger.warning(f'... Only {t} would get returned. ')
          if dataset_id:
              app.logger.warning(f'... Only manifest generated by using dataset id {dataset_id[0]} would get returned with title {t}')
              return self.create_single_manifest(single_data_type=data_type_lst[0], title=t, single_dataset_id=dataset_id[0])
          else:
              return self.create_single_manifest(single_data_type=data_type_lst[0], title=t)
      else:
          ... the loop above ...
  \<close>
  Where no dataset id is passed, \<open>create_single_manifest\<close> takes its default, the empty
  string.
\<close>

definition generate_manifest_and_collect_outputs ::
  "('a, 'z) generation_env_scheme \<Rightarrow> ManifestGeneration \<Rightarrow> string list \<Rightarrow> string list \<Rightarrow>
     effects \<Rightarrow> (py_error + 'a outputs) \<times> effects" where
  "generate_manifest_and_collect_outputs env self data_type_lst dataset_ids w =
     (if output_format self = Some ''excel'' then
        (case first_item data_type_lst of
           Inl e \<Rightarrow> (Inl e, w)
         | Inr dt \<Rightarrow>
             (let t = get_manifest_title self dt;
                  w1 = (if length data_type_lst > 1
                        then logger_warning (excel_warning_components t) w else w)
              in case dataset_ids of
                   d # _ \<Rightarrow>
                     (case create_single_manifest env self dt d t
                             (logger_warning (excel_warning_dataset d t) w1) of
                        (r, w') \<Rightarrow> (map_sum id Attachment r, w'))
                 | [] \<Rightarrow>
                     (case create_single_manifest env self dt [] t w1 of
                        (r, w') \<Rightarrow> (map_sum id Attachment r, w'))))
      else
        (case collect_outputs env self dataset_ids 0 data_type_lst [] w of
           (r, w') \<Rightarrow> (map_sum id Collected r, w')))"

text \<open>
  The call that \<open>create_single_manifest\<close> builds when it is given the component \<open>dt\<close>,
  its title, and the dataset id at position \<open>i\<close> (the default \<^verbatim>\<open>''\<close> when there are no
  dataset ids): a shorthand for the lemma about the loop \<open>collect_outputs\<close>.
\<close>

definition call_at :: "ManifestGeneration \<Rightarrow> string list \<Rightarrow> nat \<times> string \<Rightarrow> generator_call" where
  "call_at self dataset_ids =
     (\<lambda>(i, dt). generator_call_of self dt (if dataset_ids = [] then [] else dataset_ids ! i)
                  (get_manifest_title self dt))"

section \<open>The route get_manifests_route\<close>

text \<open>The parameters of the route, named as in its signature.\<close>

record manifests_request =
  rq_schema_url :: string
  rq_output_format :: string
  rq_access_token :: string
  rq_use_annotations :: bool
  rq_dataset_id :: "string list"
  rq_data_type :: "string list"
  rq_asset_view :: "string option"
  rq_title :: string

definition all_manifests_message :: string where
  "all_manifests_message =
     ''When submitting 'all manifests' as the data_type cannot also submit dataset_id. '' @
     ''Please check your submission and try again.''"

text \<open>
  The checks of the route on a request with dataset ids:
  \<^verbatim>\<open>
  if dataset_id:
      mg._check_dataset_match_datatype_(dataset_id, data_type)
      try:
          data_type[0] != 'all manifests'
      except:
          raise ValueError(
                  f"When submitting 'all manifests' as the data_type cannot also submit dataset_id. "
                  f"Please check your submission and try again."
              )
  \<close>
  The method is declared with no parameter after \<^verbatim>\<open>self\<close> and called with two.
\<close>

definition route_dataset_checks ::
  "ManifestGeneration \<Rightarrow> string list \<Rightarrow> string list \<Rightarrow> py_error + unit" where
  "route_dataset_checks mg dataset_ids data_types =
     (if truthy dataset_ids then
        and_then (call_method 0 2 (check_dataset_match_datatype mg))
          (\<lambda>_. try_expression
                  (and_then (first_item data_types) (\<lambda>d. Inr (d \<noteq> ''all manifests'')))
                  (ValueError all_manifests_message))
      else Inr ())"

text \<open>
  The components of the route:
  \<^verbatim>\<open>
  if data_type[0] == 'all manifests':
      sg = SchemaGenerator(path_to_json_ld=jsonld)
      component_digraph = sg.se.get_digraph_by_edge_type('requiresComponent')
      components = list(component_digraph.nodes())
  else:
      components = data_type
  \<close>
\<close>

definition route_components ::
  "('a, 'z) generation_env_scheme \<Rightarrow> string \<Rightarrow> string list \<Rightarrow> py_error + string list" where
  "route_components env jsonld data_types =
     and_then (first_item data_types)
       (\<lambda>d. if d = ''all manifests'' then requires_component_nodes env jsonld
            else Inr data_types)"

text \<open>
  \<^verbatim>\<open>if all_outputs: return all_outputs\<close>, and \<^verbatim>\<open>None\<close> falls out of the function
  otherwise. A list is true when it is not empty; the response object of the Excel
  branch is true.
\<close>

definition truthy_outputs :: "'a outputs \<Rightarrow> bool" where
  "truthy_outputs out = (case out of Attachment _ \<Rightarrow> True | Collected xs \<Rightarrow> truthy xs)"

text \<open>
  \<^verbatim>\<open>
  mg = ManifestGeneration(schema_url=schema_url, access_token=access_token, output_format=output_format,
         title=title, use_annotations=use_annotations, dataset_id=dataset_id, data_type=data_type,
         asset_view=asset_view)
  mg._load_config_()
  jsonld = get_temp_jsonld(schema_url)
  ... the checks ...
  ... the components ...
  all_outputs = mg.generate_manifest_and_collect_outputs(data_type_lst=components, dataset_id=dataset_id)
  if all_outputs:
      return all_outputs
  \<close>
  The arguments have the types of the signature, so the construction of the model
  succeeds; every later step can raise, and the first raise ends the call with the
  effects made so far.
\<close>

definition get_manifests_route ::
  "('a, 'z) generation_env_scheme \<Rightarrow> manifests_request \<Rightarrow> effects \<Rightarrow>
     (py_error + 'a outputs option) \<times> effects" where
  "get_manifests_route env rq w =
     (let mg = \<lparr>schema_url = rq_schema_url rq, access_token = Some (rq_access_token rq),
                 asset_view = rq_asset_view rq, dataset_id = rq_dataset_id rq,
                 data_type = rq_data_type rq, title = Some (rq_title rq),
                 output_format = Some (rq_output_format rq),
                 use_annotations = Some (rq_use_annotations rq)\<rparr>
      in case mg_load_config env mg of
           Inl e \<Rightarrow> (Inl e, w)
         | Inr _ \<Rightarrow>
        (case get_temp_jsonld env (rq_schema_url rq) of
           Inl e \<Rightarrow> (Inl e, w)
         | Inr jsonld \<Rightarrow>
        (case route_dataset_checks mg (rq_dataset_id rq) (rq_data_type rq) of
           Inl e \<Rightarrow> (Inl e, w)
         | Inr _ \<Rightarrow>
        (case route_components env jsonld (rq_data_type rq) of
           Inl e \<Rightarrow> (Inl e, w)
         | Inr components \<Rightarrow>
        (case generate_manifest_and_collect_outputs env mg components (rq_dataset_id rq) w of
           (Inl e, w') \<Rightarrow> (Inl e, w')
         | (Inr all_outputs, w') \<Rightarrow>
             (Inr (if truthy_outputs all_outputs then Some all_outputs else None), w'))))))"

section \<open>The collaborators of validation and submission\<close>

text \<open>An uploaded file of the request (a \<^verbatim>\<open>FileStorage\<close>).\<close>

record upload =
  up_filename :: string
  up_content_type :: string
  up_content :: string

text \<open>
  The keyword arguments with which \<open>submit_manifest_route\<close> calls
  \<^verbatim>\<open>metadata_model.submit_metadata_manifest\<close>.
\<close>

record submit_kwargs =
  sk_path_to_json_ld :: string
  sk_manifest_path :: string
  sk_dataset_id :: string
  sk_validate_component :: "string option"
  sk_access_token :: string
  sk_manifest_record_type :: string
  sk_restrict_rules :: bool
  sk_table_manipulation :: string
  sk_use_schema_label :: bool

text \<open>
  What lies outside the module for the two routes. \<open>'df\<close> is a data frame, \<open>'m\<close> a
  metadata model, \<open>'r\<close> a list of validation results.
  \<^item> \<open>request_files\<close>, \<open>request_args\<close>: \<^verbatim>\<open>connexion.request.files\<close> and \<^verbatim>\<open>.args\<close>;
  \<^item> \<open>read_json\<close>: \<^verbatim>\<open>pd.read_json\<close>; \<open>to_csv\<close>: \<^verbatim>\<open>df.to_csv(path, encoding='utf-8', index=False)\<close>;
  \<^item> \<open>gettempdir\<close>, \<open>path_join\<close>, \<open>splitext_root\<close>: \<^verbatim>\<open>tempfile.gettempdir()\<close>,
    \<^verbatim>\<open>os.path.join\<close> and \<^verbatim>\<open>os.path.splitext(...)[0]\<close>;
  \<^item> \<open>save_upload\<close>: \<^verbatim>\<open>manifest_file.save(path)\<close>;
  \<^item> \<open>new_metadata_model\<close>: \<^verbatim>\<open>MetadataModel(inputMModelLocation, inputMModelLocationType)\<close>;
  \<^item> \<open>validateModelManifest\<close>: the validator, from the manifest's path, the root node
    and \<^verbatim>\<open>restrict_rules\<close> to the pair of errors and warnings;
  \<^item> \<open>submit_metadata_manifest\<close>: the submission, giving the manifest's identifier.
\<close>

record ('df, 'm, 'r) pipeline_env = infrastructure +
  request_files :: "string \<rightharpoonup> upload"
  request_args :: "string \<rightharpoonup> string"
  read_json :: "string \<Rightarrow> py_error + 'df"
  to_csv :: "'df \<Rightarrow> string \<Rightarrow> py_error + unit"
  gettempdir :: string
  path_join :: "string \<Rightarrow> string \<Rightarrow> string"
  splitext_root :: "string \<Rightarrow> string"
  save_upload :: "upload \<Rightarrow> string \<Rightarrow> py_error + unit"
  new_metadata_model :: "string \<Rightarrow> string \<Rightarrow> py_error + 'm"
  validateModelManifest :: "'m \<Rightarrow> string \<Rightarrow> string \<Rightarrow> bool option \<Rightarrow> py_error + 'r \<times> 'r"
  submit_metadata_manifest :: "'m \<Rightarrow> submit_kwargs \<Rightarrow> py_error + string"

text \<open>
  \<^verbatim>\<open>connexion.request.files[key]\<close> and \<^verbatim>\<open>connexion.request.args[key]\<close>: a missing key
  raises (a subclass of) KeyError.
\<close>

definition lookup_key :: "(string \<rightharpoonup> 'v) \<Rightarrow> string \<Rightarrow> py_error + 'v" where
  "lookup_key m k = (case m k of None \<Rightarrow> Inl (KeyError k) | Some v \<Rightarrow> Inr v)"

section \<open>JsonConverter and save_file\<close>

text \<open>
  \<^verbatim>\<open>
  def readJson(self, json_str=None, manifest_file=None):
      if json_str:
          df = pd.read_json(json_str)
      elif manifest_file:
          df = pd.read_json(manifest_file.read())
      return df
  \<close>
  An uploaded file is true when its filename is not empty. With neither argument true,
  \<^verbatim>\<open>df\<close> is unbound at the \<^verbatim>\<open>return\<close>.
\<close>

definition readJson ::
  "('df, 'm, 'r, 'z) pipeline_env_scheme \<Rightarrow> string option \<Rightarrow> upload option \<Rightarrow> py_error + 'df" where
  "readJson env json_str manifest_file =
     (if truthy_opt json_str then read_json env (the json_str)
      else if (case manifest_file of None \<Rightarrow> False | Some f \<Rightarrow> truthy (up_filename f))
      then read_json env (up_content (the manifest_file))
      else Inl (UnboundLocalError ''df''))"

definition get_file :: "('df, 'm, 'r, 'z) pipeline_env_scheme \<Rightarrow> string \<Rightarrow> py_error + upload" where
  "get_file env file_key = lookup_key (request_files env) file_key"

definition IsJsonFile :: "upload \<Rightarrow> bool" where
  "IsJsonFile manifest_file =
     (if up_content_type manifest_file = ''application/json'' then True else False)"

text \<open>
  \<^verbatim>\<open>
  def convert_df_to_csv(self, df, file_name):
      temp_dir = tempfile.gettempdir()
      temp_path = os.path.join(temp_dir, file_name)
      df.to_csv(temp_path, encoding = 'utf-8', index=False)
      return temp_path
  \<close>
\<close>

definition convert_df_to_csv ::
  "('df, 'm, 'r, 'z) pipeline_env_scheme \<Rightarrow> 'df \<Rightarrow> string \<Rightarrow> py_error + string" where
  "convert_df_to_csv env df file_name =
     (let temp_dir = gettempdir env;
          temp_path = path_join env temp_dir file_name
      in and_then (to_csv env df temp_path) (\<lambda>_. Inr temp_path))"

definition convert_json_str_to_csv ::
  "('df, 'm, 'r, 'z) pipeline_env_scheme \<Rightarrow> string \<Rightarrow> string \<Rightarrow> py_error + string" where
  "convert_json_str_to_csv env json_str file_name =
     and_then (readJson env (Some json_str) None) (\<lambda>df. convert_df_to_csv env df file_name)"

text \<open>
  \<^verbatim>\<open>
  def save_file(file_key="csv_file"):
      manifest_file = connexion.request.files[file_key]
      temp_dir = tempfile.gettempdir()
      temp_path = os.path.join(temp_dir, manifest_file.filename)
      manifest_file.save(temp_path)
      return temp_path
  \<close>
\<close>

definition save_file :: "('df, 'm, 'r, 'z) pipeline_env_scheme \<Rightarrow> string \<Rightarrow> py_error + string" where
  "save_file env file_key =
     and_then (lookup_key (request_files env) file_key)
       (\<lambda>manifest_file.
          let temp_dir = gettempdir env;
              temp_path = path_join env temp_dir (up_filename manifest_file)
          in and_then (save_upload env manifest_file temp_path) (\<lambda>_. Inr temp_path))"

text \<open>
  \<^verbatim>\<open>
  def convert_json_file_to_csv(self, file_key):
      manifest_file = self.get_file(file_key)
      if self.IsJsonFile(manifest_file):
          df = self.readJson(manifest_file = manifest_file)
          base = os.path.splitext(manifest_file.filename)[0]
          new_file_name = base + '.csv'
          temp_path = self.convert_df_to_csv(df, new_file_name)
          return temp_path
      else:
          temp_path = save_file(file_key='file_name')
          return temp_path
  \<close>
\<close>

definition convert_json_file_to_csv ::
  "('df, 'm, 'r, 'z) pipeline_env_scheme \<Rightarrow> string \<Rightarrow> py_error + string" where
  "convert_json_file_to_csv env file_key =
     and_then (get_file env file_key)
       (\<lambda>manifest_file.
          if IsJsonFile manifest_file then
            and_then (readJson env None (Some manifest_file))
              (\<lambda>df. let base = splitext_root env (up_filename manifest_file);
                        new_file_name = base @ ''.csv''
                    in convert_df_to_csv env df new_file_name)
          else save_file env ''file_name'')"

text \<open>
  \<^verbatim>\<open>
  def initalize_metadata_model(schema_url):
      jsonld = get_temp_jsonld(schema_url)
      metadata_model = MetadataModel(
          inputMModelLocation=jsonld, inputMModelLocationType="local"
      )
      return metadata_model
  \<close>
\<close>

definition initalize_metadata_model ::
  "('df, 'm, 'r, 'z) pipeline_env_scheme \<Rightarrow> string \<Rightarrow> py_error + 'm" where
  "initalize_metadata_model env url =
     and_then (get_temp_jsonld env url) (\<lambda>jsonld. new_metadata_model env jsonld ''local'')"

section \<open>The route validate_manifest_route\<close>

text \<open>\<^verbatim>\<open>if not restrict_rules: restrict_rules = False\<close>\<close>

definition default_false :: "bool option \<Rightarrow> bool option" where
  "default_false restrict_rules =
     (if \<not> truthy_opt_bool restrict_rules then Some False else restrict_rules)"

text \<open>
  \<^verbatim>\<open>
  def validate_manifest_route(schema_url, data_type, restrict_rules=None, json_str=None):
      if not restrict_rules:
          restrict_rules=False
      config_handler()
      if not restrict_rules:
          restrict_rules = False
      jsc = JsonConverter()
      if json_str:
          temp_path = jsc.convert_json_str_to_csv(json_str = json_str, file_name = "example_json")
      else:
          temp_path = jsc.convert_json_file_to_csv("file_name")
      jsonld = get_temp_jsonld(schema_url)
      metadata_model = MetadataModel(
          inputMModelLocation=jsonld, inputMModelLocationType="local"
      )
      errors, warnings = metadata_model.validateModelManifest(
          manifestPath=temp_path, rootNode=data_type, restrict_rules=restrict_rules
      )
      res_dict = {"errors": errors, "warnings": warnings}
      return res_dict
  \<close>
\<close>

definition validate_manifest_route ::
  "('df, 'm, 'r, 'z) pipeline_env_scheme \<Rightarrow> string \<Rightarrow> string \<Rightarrow> bool option \<Rightarrow> string option \<Rightarrow>
     py_error + (string \<rightharpoonup> 'r)" where
  "validate_manifest_route env url root_node restrict_rules json_str =
     (let restrict_rules1 = default_false restrict_rules in
      and_then (config_handler env None) (\<lambda>_.
      let restrict_rules2 = default_false restrict_rules1 in
      and_then (if truthy_opt json_str
                then convert_json_str_to_csv env (the json_str) ''example_json''
                else convert_json_file_to_csv env ''file_name'') (\<lambda>temp_path.
      and_then (get_temp_jsonld env url) (\<lambda>jsonld.
      and_then (new_metadata_model env jsonld ''local'') (\<lambda>metadata_model.
      and_then (validateModelManifest env metadata_model temp_path root_node restrict_rules2)
        (\<lambda>(errors, warnings).
           Inr [''errors'' \<mapsto> errors, ''warnings'' \<mapsto> warnings]))))))"

section \<open>The route submit_manifest_route\<close>

text \<open>
  \<^verbatim>\<open>if not table_manipulation: table_manipulation = "replace"\<close>, and the same for
  \<^verbatim>\<open>manifest_record_type\<close>.
\<close>

definition default_to :: "string \<Rightarrow> string option \<Rightarrow> string" where
  "default_to d v = (if \<not> truthy_opt v then d else the v)"

text \<open>
  \<^verbatim>\<open>
  use_schema_label = connexion.request.args["use_schema_label"]
  if use_schema_label == 'None':
      use_schema_label = True
  else:
      use_schema_label = parse_bool(use_schema_label)
  \<close>
\<close>

definition use_schema_label_of :: "string \<Rightarrow> py_error + bool" where
  "use_schema_label_of use_schema_label =
     (if use_schema_label = ''None'' then Inr True else parse_bool use_schema_label)"

text \<open>
  \<^verbatim>\<open>
  def submit_manifest_route(schema_url, asset_view=None, manifest_record_type=None, json_str=None,
                            table_manipulation=None, data_type=None):
      config_handler(asset_view = asset_view)
      jsc = JsonConverter()
      if json_str:
          temp_path = jsc.convert_json_str_to_csv(json_str = json_str, file_name = "example_json.csv")
      else:
          temp_path = jsc.convert_json_file_to_csv("file_name")
      dataset_id = connexion.request.args["dataset_id"]
      restrict_rules = parse_bool(connexion.request.args["restrict_rules"])
      metadata_model = initalize_metadata_model(schema_url)
      access_token = connexion.request.args["access_token"]
      use_schema_label = connexion.request.args["use_schema_label"]
      if use_schema_label == 'None':
          use_schema_label = True
      else:
          use_schema_label = parse_bool(use_schema_label)
      if not table_manipulation:
          table_manipulation = "replace"
      if not manifest_record_type:
          manifest_record_type = "table_file_and_entities"
      if data_type == 'None':
          validate_component = None
      else:
          validate_component = data_type
      manifest_id = metadata_model.submit_metadata_manifest(
          path_to_json_ld = schema_url, manifest_path=temp_path, dataset_id=dataset_id,
          validate_component=validate_component, access_token=access_token,
          manifest_record_type = manifest_record_type, restrict_rules = restrict_rules,
          table_manipulation = table_manipulation, use_schema_label=use_schema_label)
      return manifest_id
  \<close>
\<close>

definition submit_manifest_route ::
  "('df, 'm, 'r, 'z) pipeline_env_scheme \<Rightarrow> string \<Rightarrow> string option \<Rightarrow> string option \<Rightarrow>
     string option \<Rightarrow> string option \<Rightarrow> string option \<Rightarrow> py_error + string" where
  "submit_manifest_route env url asset_view_arg manifest_record_type json_str
       table_manipulation data_type_arg =
     and_then (config_handler env asset_view_arg) (\<lambda>_.
     and_then (if truthy_opt json_str
               then convert_json_str_to_csv env (the json_str) ''example_json.csv''
               else convert_json_file_to_csv env ''file_name'') (\<lambda>temp_path.
     and_then (lookup_key (request_args env) ''dataset_id'') (\<lambda>dataset_id_arg.
     and_then (lookup_key (request_args env) ''restrict_rules'') (\<lambda>restrict_rules_str.
     and_then (parse_bool restrict_rules_str) (\<lambda>restrict_rules.
     and_then (initalize_metadata_model env url) (\<lambda>metadata_model.
     and_then (lookup_key (request_args env) ''access_token'') (\<lambda>access_token_arg.
     and_then (lookup_key (request_args env) ''use_schema_label'') (\<lambda>use_schema_label_str.
     and_then (use_schema_label_of use_schema_label_str) (\<lambda>use_schema_label.
     let table_manipulation1 = default_to ''replace'' table_manipulation;
         manifest_record_type1 = default_to ''table_file_and_entities'' manifest_record_type;
         validate_component = (if data_type_arg = Some ''None'' then None else data_type_arg)
     in submit_metadata_manifest env metadata_model
          \<lparr>sk_path_to_json_ld = url, sk_manifest_path = temp_path,
           sk_dataset_id = dataset_id_arg, sk_validate_component = validate_component,
           sk_access_token = access_token_arg,
           sk_manifest_record_type = manifest_record_type1,
           sk_restrict_rules = restrict_rules,
           sk_table_manipulation = table_manipulation1,
           sk_use_schema_label = use_schema_label\<rparr>)))))))))"

section \<open>An example deployment\<close>

text \<open>
  A deployment in which every collaborator answers: the configuration file exists, the
  schema downloads, the requirement graph has two nodes, and the generator answers
  with the root, the dataset id and the title it was called with.
\<close>

definition example_env :: "string generation_env" where
  "example_env =
     \<lparr>app_config = [''SCHEMATIC_CONFIG'' \<mapsto> ''config.yml''],
      isfile = (\<lambda>p. p = ''config.yml''),
      load_config = (\<lambda>_ _. Inr ()),
      fetch_jsonld = (\<lambda>_. Inr ''/tmp/example.model.jsonld''),
      requires_component_nodes = (\<lambda>_. Inr [''Patient'', ''Biospecimen'']),
      get_manifest = (\<lambda>c. Inr (gc_root c @ '':'' @ gc_dataset_id c @ '':'' @ gc_title c)),
      send_from_directory = (\<lambda>p. Inr p)\<rparr>"

definition example_request :: manifests_request where
  "example_request =
     \<lparr>rq_schema_url = ''https://example.org/model.jsonld'', rq_output_format = ''dataframe'',
      rq_access_token = [], rq_use_annotations = False, rq_dataset_id = [],
      rq_data_type = [''Patient''], rq_asset_view = None, rq_title = []\<rparr>"

definition example_generation :: "string \<Rightarrow> ManifestGeneration" where
  "example_generation fmt =
     \<lparr>schema_url = ''https://example.org/model.jsonld'', access_token = Some [],
      asset_view = None, dataset_id = [], data_type = [], title = Some [],
      output_format = Some fmt, use_annotations = Some False\<rparr>"

text \<open>
  A deployment of the validation and submission routes: a JSON payload is read into
  its own text, the validator reports one error and one warning, and the submission
  answers with the identifier of a manifest.
\<close>

definition example_pipeline :: "(string, string, string list) pipeline_env" where
  "example_pipeline =
     \<lparr>app_config = [''SCHEMATIC_CONFIG'' \<mapsto> ''config.yml''],
      isfile = (\<lambda>p. p = ''config.yml''),
      load_config = (\<lambda>_ _. Inr ()),
      fetch_jsonld = (\<lambda>_. Inr ''/tmp/example.model.jsonld''),
      request_files = Map.empty,
      request_args = [''dataset_id'' \<mapsto> ''syn1'', ''restrict_rules'' \<mapsto> ''false'',
                      ''access_token'' \<mapsto> ''token'', ''use_schema_label'' \<mapsto> ''None''],
      read_json = (\<lambda>s. Inr s),
      to_csv = (\<lambda>_ _. Inr ()),
      gettempdir = ''/tmp'',
      path_join = (\<lambda>d f. d @ ''/'' @ f),
      splitext_root = (\<lambda>f. takeWhile (\<lambda>c. c \<noteq> CHR ''.'') f),
      save_upload = (\<lambda>_ _. Inr ()),
      new_metadata_model = (\<lambda>p _. Inr p),
      validateModelManifest = (\<lambda>_ _ _ _. Inr ([''bad value''], [''odd value''])),
      submit_metadata_manifest = (\<lambda>_ _. Inr ''syn2'')\<rparr>"

section \<open>Facts shared by the proofs\<close>

lemma check_dataset_match_datatype_returns [simp]:
  "check_dataset_match_datatype mg = Inr ()"
  by (simp add: check_dataset_match_datatype_def try_expression_def)

lemma route_dataset_checks_given_ids:
  "ds \<noteq> [] \<Longrightarrow>
     route_dataset_checks mg ds dts = Inl (TypeError ''wrong number of positional arguments'')"
  by (simp add: route_dataset_checks_def truthy_def call_method_def and_then_def)

lemma route_dataset_checks_no_ids: "route_dataset_checks mg [] dts = Inr ()"
  by (simp add: route_dataset_checks_def truthy_def)

lemma example_env_config: "config_handler example_env v = Inr ()"
  by (simp add: config_handler_def example_env_def)

lemma example_env_jsonld: "get_temp_jsonld example_env u = Inr ''/tmp/example.model.jsonld''"
  by (simp add: get_temp_jsonld_def example_env_def)

lemma example_env_get_manifest:
  "get_manifest example_env c = Inr (gc_root c @ '':'' @ gc_dataset_id c @ '':'' @ gc_title c)"
  by (simp add: example_env_def)

lemma example_env_send: "send_from_directory example_env p = Inr p"
  by (simp add: example_env_def)

lemma example_pipeline_config: "config_handler example_pipeline v = Inr ()"
  by (simp add: config_handler_def example_pipeline_def)

lemma example_pipeline_convert:
  "convert_json_str_to_csv example_pipeline ''[]'' name = Inr (''/tmp/'' @ name)"
  by (simp add: convert_json_str_to_csv_def readJson_def convert_df_to_csv_def and_then_def
      truthy_opt_def truthy_def example_pipeline_def Let_def)

lemma example_pipeline_model:
  "initalize_metadata_model example_pipeline u = Inr ''/tmp/example.model.jsonld''"
  by (simp add: initalize_metadata_model_def get_temp_jsonld_def and_then_def
      example_pipeline_def)

lemma lower_char_t: "lower_char c = CHR ''t'' \<longleftrightarrow> c = CHR ''t'' \<or> c = CHR ''T''"
  by (auto simp add: lower_char_def split: if_splits)

lemma lower_char_f: "lower_char c = CHR ''f'' \<longleftrightarrow> c = CHR ''f'' \<or> c = CHR ''F''"
  by (auto simp add: lower_char_def split: if_splits)

lemma startswith_lower_t:
  "startswith (lower s) ''t'' \<longleftrightarrow> (\<exists>rest. s = CHR ''t'' # rest \<or> s = CHR ''T'' # rest)"
  by (cases s) (auto simp add: startswith_def lower_def lower_char_t)

lemma startswith_lower_f:
  "startswith (lower s) ''f'' \<longleftrightarrow> (\<exists>rest. s = CHR ''f'' # rest \<or> s = CHR ''F'' # rest)"
  by (cases s) (auto simp add: startswith_def lower_def lower_char_f)

lemma default_false_twice: "default_false (default_false r) = default_false r"
  by (simp add: default_false_def truthy_opt_bool_def split: option.splits)

lemma default_false_cases:
  "default_false r = (if r = Some True then Some True else Some False)"
  by (cases r) (auto simp add: default_false_def truthy_opt_bool_def)

text \<open>
  The loop, from any position: when the dataset ids reach as far as the components do
  (or there is none) and the generator answers every call, the loop makes exactly the
  expected calls, in order, and appends what the generator returned for each.
\<close>

lemma collect_outputs_all:
  assumes "output_format self \<noteq> Some ''excel''"
    and "ds = [] \<or> i + length dts \<le> length ds"
    and "\<forall>c \<in> set (map (call_at self ds) (List.enumerate i dts)). \<exists>a. get_manifest env c = Inr a"
  shows "\<exists>outs. collect_outputs env self ds i dts acc w =
            (Inr (acc @ outs),
             w\<lparr>generator_calls := generator_calls w @ map (call_at self ds) (List.enumerate i dts)\<rparr>)
          \<and> map (get_manifest env) (map (call_at self ds) (List.enumerate i dts)) = map Inr outs"
  using assms
proof (induction dts arbitrary: i acc w)
  case Nil
  then show ?case by simp
next
  case (Cons dt rest)
  let ?c = "call_at self ds (i, dt)"
  let ?w = "w\<lparr>generator_calls := generator_calls w @ [?c]\<rparr>"
  from Cons.prems(3) obtain a where a: "get_manifest env ?c = Inr a"
    by auto
  have step:
    "create_single_manifest env self dt (if ds = [] then [] else ds ! i)
       (get_manifest_title self dt) w = (Inr a, ?w)"
    using a Cons.prems(1) by (simp add: create_single_manifest_def call_at_def Let_def)
  have "ds = [] \<or> Suc i + length rest \<le> length ds"
    using Cons.prems(2) by auto
  moreover have
    "\<forall>c \<in> set (map (call_at self ds) (List.enumerate (Suc i) rest)). \<exists>a. get_manifest env c = Inr a"
    using Cons.prems(3) by auto
  ultimately obtain outs where outs:
    "collect_outputs env self ds (Suc i) rest (acc @ [a]) ?w =
       (Inr ((acc @ [a]) @ outs),
        ?w\<lparr>generator_calls := generator_calls ?w @ map (call_at self ds) (List.enumerate (Suc i) rest)\<rparr>)"
    "map (get_manifest env) (map (call_at self ds) (List.enumerate (Suc i) rest)) = map Inr outs"
    using Cons.IH [OF Cons.prems(1)] by blast
  have "collect_outputs env self ds i (dt # rest) acc w =
          (Inr (acc @ a # outs),
           w\<lparr>generator_calls :=
                generator_calls w @ map (call_at self ds) (List.enumerate i (dt # rest))\<rparr>)"
  proof (cases "ds = []")
    case True
    then show ?thesis
      using step outs(1) by (simp add: truthy_def Let_def)
  next
    case False
    then have "i < length ds"
      using Cons.prems(2) by auto
    then show ?thesis
      using False step outs(1) by (simp add: truthy_def Let_def item_at_def)
  qed
  moreover have
    "map (get_manifest env) (map (call_at self ds) (List.enumerate i (dt # rest))) = map Inr (a # outs)"
    using a outs(2) by simp
  ultimately show ?case
    by blast
qed

section \<open>Requests with dataset ids\<close>

text \<open>
  C9. A call of \<open>get_manifests_route\<close> with a non-empty list of dataset ids never
  generates an artifact: it ends in an exception with no call made to the generator
  and no warning logged. Once the configuration has loaded and the schema has been
  fetched, the exception is the TypeError of calling \<^verbatim>\<open>_check_dataset_match_datatype_\<close>
  with two positional arguments, whether or not the lengths of the two lists agree.
\<close>

theorem dataset_ids_end_in_TypeError:
  assumes "rq_dataset_id rq \<noteq> []"
  shows "(\<exists>e. get_manifests_route env rq w = (Inl e, w)) \<and>
         (config_handler env (rq_asset_view rq) = Inr () \<and>
          (\<exists>jsonld. get_temp_jsonld env (rq_schema_url rq) = Inr jsonld) \<longrightarrow>
            get_manifests_route env rq w =
              (Inl (TypeError ''wrong number of positional arguments''), w))"
  using assms
  by (auto simp add: get_manifests_route_def mg_load_config_def route_dataset_checks_given_ids
      Let_def split: sum.splits)

theorem dataset_ids_end_in_TypeError_witness:
  "rq_dataset_id (example_request\<lparr>rq_dataset_id := [''syn1'']\<rparr>) \<noteq> [] \<and>
   config_handler example_env (rq_asset_view (example_request\<lparr>rq_dataset_id := [''syn1'']\<rparr>))
     = Inr () \<and>
   get_manifests_route example_env (example_request\<lparr>rq_dataset_id := [''syn1'']\<rparr>) no_effects =
     (Inl (TypeError ''wrong number of positional arguments''), no_effects)"
  using dataset_ids_end_in_TypeError
    [of "example_request\<lparr>rq_dataset_id := [''syn1'']\<rparr>" example_env no_effects]
  by (simp add: example_env_config example_env_jsonld)

text \<open>
  C1. The documented behaviour is a ValueError on a mismatch between the numbers of
  dataset ids and data types. On two data types and one dataset id the route raises
  TypeError instead (no artifact is generated), and the check itself, were it called
  as declared, returns without raising.
\<close>

theorem mismatch_raises_TypeError_not_ValueError:
  "get_manifests_route example_env
     (example_request\<lparr>rq_data_type := [''Patient'', ''Biospecimen''],
                      rq_dataset_id := [''syn1'']\<rparr>) no_effects =
     (Inl (TypeError ''wrong number of positional arguments''), no_effects) \<and>
   check_dataset_match_datatype
     ((example_generation ''dataframe'')
        \<lparr>data_type := [''Patient'', ''Biospecimen''], dataset_id := [''syn1'']\<rparr>) = Inr ()"
  by (simp add: get_manifests_route_def mg_load_config_def example_request_def
      example_env_config example_env_jsonld route_dataset_checks_given_ids)

text \<open>
  C2. The documented behaviour is a ValueError when \<^verbatim>\<open>'all manifests'\<close> comes with
  dataset ids. On that request the route raises TypeError instead, and the
  \<^verbatim>\<open>try\<close> statement meant to reject it, which only evaluates a comparison, lets
  \<^verbatim>\<open>['all manifests']\<close> through.
\<close>

theorem all_manifests_with_ids_raises_TypeError_not_ValueError:
  "get_manifests_route example_env
     (example_request\<lparr>rq_data_type := [''all manifests''],
                      rq_dataset_id := [''syn1'']\<rparr>) no_effects =
     (Inl (TypeError ''wrong number of positional arguments''), no_effects) \<and>
   try_expression
     (and_then (first_item [''all manifests'']) (\<lambda>d. Inr (d \<noteq> ''all manifests'')))
     (ValueError all_manifests_message) = Inr ()"
  by (simp add: get_manifests_route_def mg_load_config_def example_request_def
      example_env_config example_env_jsonld route_dataset_checks_given_ids
      try_expression_def and_then_def first_item_def)

section \<open>Requests without data types\<close>

text \<open>
  C10. A call of \<open>get_manifests_route\<close> with an empty list of data types ends in an
  exception before anything is generated; with no dataset ids either, and the
  configuration loaded and the schema fetched, the exception is the IndexError of
  \<^verbatim>\<open>data_type[0]\<close>. No call at all returns an empty list of artifacts.
\<close>

theorem empty_data_type_raises_IndexError:
  "(rq_data_type rq = [] \<longrightarrow> (\<exists>e. get_manifests_route env rq w = (Inl e, w))) \<and>
   (rq_data_type rq = [] \<and> rq_dataset_id rq = [] \<and>
    config_handler env (rq_asset_view rq) = Inr () \<and>
    (\<exists>jsonld. get_temp_jsonld env (rq_schema_url rq) = Inr jsonld) \<longrightarrow>
      get_manifests_route env rq w = (Inl IndexError, w)) \<and>
   fst (get_manifests_route env rq w) \<noteq> Inr (Some (Collected []))"
  by (auto simp add: get_manifests_route_def mg_load_config_def route_components_def
      route_dataset_checks_def truthy_def call_method_def try_expression_def
      first_item_def and_then_def Let_def truthy_outputs_def
      split: sum.splits prod.splits if_splits)

theorem empty_data_type_raises_IndexError_witness:
  "rq_data_type (example_request\<lparr>rq_data_type := []\<rparr>) = [] \<and>
   rq_dataset_id (example_request\<lparr>rq_data_type := []\<rparr>) = [] \<and>
   config_handler example_env (rq_asset_view (example_request\<lparr>rq_data_type := []\<rparr>)) = Inr () \<and>
   get_manifests_route example_env (example_request\<lparr>rq_data_type := []\<rparr>) no_effects =
     (Inl IndexError, no_effects)"
  using empty_data_type_raises_IndexError
    [of "example_request\<lparr>rq_data_type := []\<rparr>" example_env no_effects]
  by (simp add: example_env_config example_env_jsonld example_request_def)


section \<open>Titles\<close>

text \<open>
  C5. The title of the manifest of a component \<open>c\<close> is \<open>title.c.manifest\<close> when a
  non-empty title was supplied and \<open>Example.c.manifest\<close> when the title is empty or
  absent; the title \<open>Cohort1\<close> and the component \<open>Patient\<close> give
  \<open>Cohort1.Patient.manifest\<close>.
\<close>

theorem manifest_title_derivation:
  "get_manifest_title (mg\<lparr>title := Some t\<rparr>) c =
     (if t = [] then ''Example.'' @ c @ ''.manifest'' else t @ ''.'' @ c @ ''.manifest'') \<and>
   get_manifest_title (mg\<lparr>title := None\<rparr>) c = ''Example.'' @ c @ ''.manifest'' \<and>
   get_manifest_title (mg\<lparr>title := Some ''Cohort1''\<rparr>) ''Patient'' = ''Cohort1.Patient.manifest'' \<and>
   get_manifest_title (mg\<lparr>title := Some []\<rparr>) ''Patient'' = ''Example.Patient.manifest''"
  by (simp add: get_manifest_title_def truthy_opt_def truthy_def)

section \<open>The Excel branch\<close>

text \<open>
  C3. With the output format \<open>excel\<close> and more than one component,
  \<open>generate_manifest_and_collect_outputs\<close> makes exactly one call to the generator:
  its root is the first component, its title is the title derived for the first
  component, and its dataset id is the first dataset id when there is one (the empty
  default otherwise). What that call gives is returned as a single attachment. The
  advisory about the components is logged, and a second one, naming the first dataset
  id, when dataset ids were given; logging does not stop the call. With a single
  component and no dataset id nothing is logged.
\<close>

theorem excel_uses_first_component_only:
  assumes "output_format self = Some ''excel''"
  shows "generate_manifest_and_collect_outputs env self (dt # dt2 # rest) dataset_ids w =
     (let t = (case title self of None \<Rightarrow> ''Example''
               | Some s \<Rightarrow> if s = [] then ''Example'' else s) @ ''.'' @ dt @ ''.manifest'';
          call = \<lparr>gc_path_to_json_ld = schema_url self, gc_title = t, gc_root = dt,
                  gc_use_annotations = use_annotations self,
                  gc_dataset_id = (case dataset_ids of [] \<Rightarrow> [] | d # _ \<Rightarrow> d),
                  gc_output_format = Some ''excel'', gc_access_token = access_token self\<rparr>
      in ((case get_manifest env call of
             Inl e \<Rightarrow> Inl e
           | Inr path \<Rightarrow>
               (case send_from_directory env path of
                  Inl e \<Rightarrow> Inl e
                | Inr response \<Rightarrow> Inr (Attachment response))),
          \<lparr>warnings = warnings w @
             [''Currently we do not support returning multiple files as Excel format at once. Only '' @
              t @ '' would get returned. ''] @
             (case dataset_ids of
                [] \<Rightarrow> []
              | d # _ \<Rightarrow>
                  [''Currently we do not support returning multiple files as Excel format at once. '' @
                   ''Only manifest generated by using dataset id '' @ d @
                   '' would get returned with title '' @ t]),
           generator_calls = generator_calls w @ [call]\<rparr>))
     \<and> warnings (snd (generate_manifest_and_collect_outputs env self [dt] [] w)) = warnings w"
proof -
  have t: "get_manifest_title self dt =
      (case title self of None \<Rightarrow> ''Example'' | Some s \<Rightarrow> if s = [] then ''Example'' else s)
        @ ''.'' @ dt @ ''.manifest''"
    by (simp add: get_manifest_title_def truthy_opt_def truthy_def split: option.splits)
  show ?thesis
    using assms
    by (cases dataset_ids)
       (auto simp add: generate_manifest_and_collect_outputs_def first_item_def Let_def t
          create_single_manifest_def generator_call_of_def logger_warning_def
          excel_warning_components_def excel_warning_dataset_def
          split: sum.splits)
qed

theorem excel_uses_first_component_only_witness:
  "output_format (example_generation ''excel'') = Some ''excel'' \<and>
   generate_manifest_and_collect_outputs example_env (example_generation ''excel'')
       [''Patient'', ''Biospecimen''] [''syn1'', ''syn2''] no_effects =
     (Inr (Attachment ''Patient:syn1:Example.Patient.manifest''),
      \<lparr>warnings =
         [''Currently we do not support returning multiple files as Excel format at once. Only Example.Patient.manifest would get returned. '',
          ''Currently we do not support returning multiple files as Excel format at once. Only manifest generated by using dataset id syn1 would get returned with title Example.Patient.manifest''],
       generator_calls =
         [\<lparr>gc_path_to_json_ld = ''https://example.org/model.jsonld'',
           gc_title = ''Example.Patient.manifest'', gc_root = ''Patient'',
           gc_use_annotations = Some False, gc_dataset_id = ''syn1'',
           gc_output_format = Some ''excel'', gc_access_token = Some []\<rparr>]\<rparr>)"
proof -
  have fmt: "output_format (example_generation ''excel'') = Some ''excel''"
    by (simp add: example_generation_def)
  show ?thesis
    using excel_uses_first_component_only
      [OF fmt, of example_env "''Patient''" "''Biospecimen''" "[]" "[''syn1'', ''syn2'']" no_effects]
    by (simp add: fmt Let_def example_env_get_manifest example_env_send no_effects_def
        example_generation_def)
qed

section \<open>The branch for Google sheets and data frames\<close>

text \<open>
  C4. With an output format other than \<open>excel\<close> (\<open>google_sheet\<close>, \<open>dataframe\<close>), a list of
  dataset ids that is empty or, as the route's check is meant to ensure before the
  loop, as long as the list of components, and a generator that answers every call,
  \<open>generate_manifest_and_collect_outputs\<close> returns a list with exactly one artifact per
  component, in the order of the components. The call for the component at position
  \<open>i\<close> has that component as its root and the title derived for it; its dataset id is
  \<open>dataset_id[i]\<close> when dataset ids were given and the empty default (a fresh template)
  when none was. The artifact at position \<open>i\<close> is what the generator returned for that
  call. These are the only calls made, in this order, and nothing is logged.
\<close>

theorem one_artifact_per_component:
  fixes self :: ManifestGeneration and ds dts :: "string list"
  defines "calls \<equiv>
    map (\<lambda>(i, dt).
           \<lparr>gc_path_to_json_ld = schema_url self,
            gc_title = (case title self of None \<Rightarrow> ''Example''
                        | Some s \<Rightarrow> if s = [] then ''Example'' else s) @ ''.'' @ dt @ ''.manifest'',
            gc_root = dt, gc_use_annotations = use_annotations self,
            gc_dataset_id = (if ds = [] then [] else ds ! i),
            gc_output_format = output_format self, gc_access_token = access_token self\<rparr>)
      (List.enumerate 0 dts)"
  assumes "output_format self \<noteq> Some ''excel''"
    and "ds = [] \<or> length ds = length dts"
    and "\<forall>c \<in> set calls. \<exists>a. get_manifest env c = Inr a"
  shows "\<exists>outs. generate_manifest_and_collect_outputs env self dts ds w =
            (Inr (Collected outs),
             \<lparr>warnings = warnings w, generator_calls = generator_calls w @ calls\<rparr>)
          \<and> length outs = length dts
          \<and> map (get_manifest env) calls = map Inr outs"
proof -
  have c: "calls = map (call_at self ds) (List.enumerate 0 dts)"
    unfolding calls_def
    by (rule arg_cong [where f = "\<lambda>f. map f (List.enumerate 0 dts)"])
       (auto simp add: call_at_def generator_call_of_def get_manifest_title_def truthy_opt_def
          truthy_def fun_eq_iff split: option.splits)
  have len: "ds = [] \<or> 0 + length dts \<le> length ds"
    using assms(3) by auto
  from collect_outputs_all [OF assms(2) len, of env "[]" w] assms(4) c
  obtain outs where o:
    "collect_outputs env self ds 0 dts [] w =
       (Inr outs, w\<lparr>generator_calls := generator_calls w @ calls\<rparr>)"
    "map (get_manifest env) calls = map Inr outs"
    by auto
  from o(2) c have "length outs = length dts"
    by (metis length_map length_enumerate)
  moreover have "w\<lparr>generator_calls := generator_calls w @ calls\<rparr> =
      \<lparr>warnings = warnings w, generator_calls = generator_calls w @ calls\<rparr>"
    by simp
  ultimately show ?thesis
    using o assms(2) by (simp add: generate_manifest_and_collect_outputs_def)
qed

theorem one_artifact_per_component_witness:
  "output_format (example_generation ''google_sheet'') \<noteq> Some ''excel'' \<and>
   length [''syn1'', ''syn2''] = length [''Patient'', ''Biospecimen''] \<and>
   generate_manifest_and_collect_outputs example_env (example_generation ''google_sheet'')
        [''Patient'', ''Biospecimen''] [''syn1'', ''syn2''] no_effects =
      (Inr (Collected [''Patient:syn1:Example.Patient.manifest'',
                       ''Biospecimen:syn2:Example.Biospecimen.manifest'']),
       \<lparr>warnings = [],
        generator_calls =
          [\<lparr>gc_path_to_json_ld = ''https://example.org/model.jsonld'',
            gc_title = ''Example.Patient.manifest'', gc_root = ''Patient'',
            gc_use_annotations = Some False, gc_dataset_id = ''syn1'',
            gc_output_format = Some ''google_sheet'', gc_access_token = Some []\<rparr>,
           \<lparr>gc_path_to_json_ld = ''https://example.org/model.jsonld'',
            gc_title = ''Example.Biospecimen.manifest'', gc_root = ''Biospecimen'',
            gc_use_annotations = Some False, gc_dataset_id = ''syn2'',
            gc_output_format = Some ''google_sheet'', gc_access_token = Some []\<rparr>]\<rparr>)"
proof -
  have fmt: "output_format (example_generation ''google_sheet'') \<noteq> Some ''excel''"
    by (simp add: example_generation_def)
  have len: "[''syn1'', ''syn2''] = [] \<or>
      length [''syn1'', ''syn2''] = length [''Patient'', ''Biospecimen'']"
    by simp
  have gen: "\<forall>c \<in> set (map (\<lambda>(i, dt).
           \<lparr>gc_path_to_json_ld = schema_url (example_generation ''google_sheet''),
            gc_title = (case title (example_generation ''google_sheet'') of None \<Rightarrow> ''Example''
                        | Some s \<Rightarrow> if s = [] then ''Example'' else s) @ ''.'' @ dt @ ''.manifest'',
            gc_root = dt, gc_use_annotations = use_annotations (example_generation ''google_sheet''),
            gc_dataset_id = (if [''syn1'', ''syn2''] = [] then [] else [''syn1'', ''syn2''] ! i),
            gc_output_format = output_format (example_generation ''google_sheet''),
            gc_access_token = access_token (example_generation ''google_sheet'')\<rparr>)
      (List.enumerate 0 [''Patient'', ''Biospecimen''])).
             \<exists>a. get_manifest example_env c = Inr a"
    by (simp add: example_env_get_manifest)
  from one_artifact_per_component [OF fmt len gen, of no_effects]
  obtain outs where o:
    "generate_manifest_and_collect_outputs example_env (example_generation ''google_sheet'')
        [''Patient'', ''Biospecimen''] [''syn1'', ''syn2''] no_effects =
      (Inr (Collected outs),
       \<lparr>warnings = warnings no_effects,
        generator_calls = generator_calls no_effects @
          map (\<lambda>(i, dt).
           \<lparr>gc_path_to_json_ld = schema_url (example_generation ''google_sheet''),
            gc_title = (case title (example_generation ''google_sheet'') of None \<Rightarrow> ''Example''
                        | Some s \<Rightarrow> if s = [] then ''Example'' else s) @ ''.'' @ dt @ ''.manifest'',
            gc_root = dt, gc_use_annotations = use_annotations (example_generation ''google_sheet''),
            gc_dataset_id = (if [''syn1'', ''syn2''] = [] then [] else [''syn1'', ''syn2''] ! i),
            gc_output_format = output_format (example_generation ''google_sheet''),
            gc_access_token = access_token (example_generation ''google_sheet'')\<rparr>)
          (List.enumerate 0 [''Patient'', ''Biospecimen''])\<rparr>)"
    "map (get_manifest example_env)
       (map (\<lambda>(i, dt).
           \<lparr>gc_path_to_json_ld = schema_url (example_generation ''google_sheet''),
            gc_title = (case title (example_generation ''google_sheet'') of None \<Rightarrow> ''Example''
                        | Some s \<Rightarrow> if s = [] then ''Example'' else s) @ ''.'' @ dt @ ''.manifest'',
            gc_root = dt, gc_use_annotations = use_annotations (example_generation ''google_sheet''),
            gc_dataset_id = (if [''syn1'', ''syn2''] = [] then [] else [''syn1'', ''syn2''] ! i),
            gc_output_format = output_format (example_generation ''google_sheet''),
            gc_access_token = access_token (example_generation ''google_sheet'')\<rparr>)
          (List.enumerate 0 [''Patient'', ''Biospecimen''])) = map Inr outs"
    by blast
  from o(2) have "outs = [''Patient:syn1:Example.Patient.manifest'',
                       ''Biospecimen:syn2:Example.Biospecimen.manifest'']"
    by (auto simp add: example_env_get_manifest example_generation_def map_eq_Cons_conv)
  with o(1) fmt show ?thesis
    by (simp add: example_generation_def no_effects_def)
qed

section \<open>Expanding the components\<close>

text \<open>
  C6, as stated, fails: the route looks at the first data type only, so the list
  \<^verbatim>\<open>['all manifests', 'Patient']\<close> is expanded to the nodes of the requirement graph
  and not passed through.
\<close>

theorem all_manifests_first_is_expanded:
  "route_components example_env ''/tmp/example.model.jsonld'' [''all manifests'', ''Patient'']
     = Inr [''Patient'', ''Biospecimen''] \<and>
   route_components example_env ''/tmp/example.model.jsonld'' [''all manifests'', ''Patient'']
     \<noteq> Inr [''all manifests'', ''Patient'']"
  by (simp add: route_components_def first_item_def and_then_def example_env_def)

text \<open>
  C6, amended. The components are the nodes of the \<^verbatim>\<open>requiresComponent\<close> graph of the
  schema exactly when the first data type is \<^verbatim>\<open>'all manifests'\<close>, whatever follows it;
  a list of data types with any other first element is passed through unchanged. (The
  empty list raises IndexError.)
\<close>

theorem components_follow_first_data_type:
  "route_components env jsonld [] = Inl IndexError \<and>
   route_components env jsonld (d # rest) =
     (if d = ''all manifests'' then requires_component_nodes env jsonld else Inr (d # rest))"
  by (simp add: route_components_def first_item_def and_then_def)


section \<open>Validation\<close>

text \<open>
  C7. When the configuration loads, the manifest is normalised to a CSV file, the
  schema is fetched and the metadata model is built, \<open>validate_manifest_route\<close> hands
  the validator's results back and does not raise, whatever the errors and warnings
  are: it returns a dictionary with exactly the keys \<open>errors\<close> and \<open>warnings\<close>, holding
  the two results. The validator is called with \<^verbatim>\<open>restrict_rules\<close> as \<^verbatim>\<open>True\<close> when the
  caller passed \<^verbatim>\<open>True\<close> and as \<^verbatim>\<open>False\<close> when the caller passed \<^verbatim>\<open>None\<close> or \<^verbatim>\<open>False\<close>.
\<close>

theorem validation_results_are_returned:
  assumes "config_handler env None = Inr ()"
    and "(if truthy_opt json_str
          then convert_json_str_to_csv env (the json_str) ''example_json''
          else convert_json_file_to_csv env ''file_name'') = Inr temp_path"
    and "get_temp_jsonld env url = Inr jsonld"
    and "new_metadata_model env jsonld ''local'' = Inr m"
    and "validateModelManifest env m temp_path root_node
           (if restrict_rules = Some True then Some True else Some False) = Inr (errors, warns)"
  shows "\<exists>res_dict. validate_manifest_route env url root_node restrict_rules json_str = Inr res_dict
           \<and> dom res_dict = {''errors'', ''warnings''}
           \<and> res_dict ''errors'' = Some errors \<and> res_dict ''warnings'' = Some warns"
  using assms
  by (auto simp add: validate_manifest_route_def Let_def and_then_def default_false_twice
      default_false_cases)

theorem validation_results_are_returned_witness:
  "config_handler example_pipeline None = Inr () \<and>
   convert_json_str_to_csv example_pipeline ''[]'' ''example_json'' = Inr ''/tmp/example_json'' \<and>
   validateModelManifest example_pipeline ''/tmp/example.model.jsonld'' ''/tmp/example_json''
     ''Patient'' (Some False) = Inr ([''bad value''], [''odd value'']) \<and>
   (\<exists>res_dict. validate_manifest_route example_pipeline ''u'' ''Patient'' None (Some ''[]'')
        = Inr res_dict
      \<and> dom res_dict = {''errors'', ''warnings''}
      \<and> res_dict ''errors'' = Some [''bad value'']
      \<and> res_dict ''warnings'' = Some [''odd value''])"
proof -
  have conv: "(if truthy_opt (Some ''[]'')
          then convert_json_str_to_csv example_pipeline (the (Some ''[]'')) ''example_json''
          else convert_json_file_to_csv example_pipeline ''file_name'') = Inr ''/tmp/example_json''"
    by (simp add: truthy_opt_def truthy_def example_pipeline_convert)
  have js: "get_temp_jsonld example_pipeline ''u'' = Inr ''/tmp/example.model.jsonld''"
    by (simp add: get_temp_jsonld_def example_pipeline_def)
  have mm: "new_metadata_model example_pipeline ''/tmp/example.model.jsonld'' ''local''
      = Inr ''/tmp/example.model.jsonld''"
    by (simp add: example_pipeline_def)
  have val: "validateModelManifest example_pipeline ''/tmp/example.model.jsonld''
      ''/tmp/example_json'' ''Patient'' (if None = Some True then Some True else Some False)
      = Inr ([''bad value''], [''odd value''])"
    by (simp add: example_pipeline_def)
  from validation_results_are_returned [OF example_pipeline_config conv js mm val]
  show ?thesis
    using val by (simp add: example_pipeline_config example_pipeline_convert)
qed

section \<open>Submission\<close>

text \<open>
  C8. When every step before it succeeds, \<open>submit_manifest_route\<close> reads
  \<^verbatim>\<open>use_schema_label\<close> from the request: the string \<^verbatim>\<open>None\<close> gives \<^verbatim>\<open>True\<close>; any other
  string gives \<^verbatim>\<open>True\<close> when its lower-case form starts with \<^verbatim>\<open>t\<close>, \<^verbatim>\<open>False\<close> when it
  starts with \<^verbatim>\<open>f\<close>, and raises ValueError otherwise. The submission is called with the
  manifest record type \<^verbatim>\<open>table_file_and_entities\<close> and the table manipulation
  \<^verbatim>\<open>replace\<close> when these are \<^verbatim>\<open>None\<close> or empty, and with the caller's values
  otherwise. A lower-case form starts with \<^verbatim>\<open>t\<close> exactly when the string starts with
  \<^verbatim>\<open>t\<close> or \<^verbatim>\<open>T\<close>, and likewise for \<^verbatim>\<open>f\<close>.
\<close>

theorem submission_defaults:
  assumes "config_handler env asset_view_arg = Inr ()"
    and "(if truthy_opt json_str
          then convert_json_str_to_csv env (the json_str) ''example_json.csv''
          else convert_json_file_to_csv env ''file_name'') = Inr temp_path"
    and "request_args env ''dataset_id'' = Some ds"
    and "request_args env ''restrict_rules'' = Some rr"
    and "parse_bool rr = Inr restrict"
    and "initalize_metadata_model env url = Inr m"
    and "request_args env ''access_token'' = Some tok"
    and "request_args env ''use_schema_label'' = Some usl"
  shows "submit_manifest_route env url asset_view_arg manifest_record_type json_str
           table_manipulation data_type_arg =
         (if usl \<noteq> ''None'' \<and> \<not> startswith (lower usl) ''t'' \<and> \<not> startswith (lower usl) ''f''
          then Inl (ValueError parse_bool_message)
          else submit_metadata_manifest env m
                 \<lparr>sk_path_to_json_ld = url, sk_manifest_path = temp_path, sk_dataset_id = ds,
                  sk_validate_component =
                    (if data_type_arg = Some ''None'' then None else data_type_arg),
                  sk_access_token = tok,
                  sk_manifest_record_type =
                    (case manifest_record_type of None \<Rightarrow> ''table_file_and_entities''
                     | Some v \<Rightarrow> if v = [] then ''table_file_and_entities'' else v),
                  sk_restrict_rules = restrict,
                  sk_table_manipulation =
                    (case table_manipulation of None \<Rightarrow> ''replace''
                     | Some v \<Rightarrow> if v = [] then ''replace'' else v),
                  sk_use_schema_label = (usl = ''None'' \<or> startswith (lower usl) ''t'')\<rparr>)
         \<and> (startswith (lower usl) ''t'' \<longleftrightarrow>
               (\<exists>rest. usl = CHR ''t'' # rest \<or> usl = CHR ''T'' # rest))
         \<and> (startswith (lower usl) ''f'' \<longleftrightarrow>
               (\<exists>rest. usl = CHR ''f'' # rest \<or> usl = CHR ''F'' # rest))"
proof -
  have "submit_manifest_route env url asset_view_arg manifest_record_type json_str
           table_manipulation data_type_arg =
         (if usl \<noteq> ''None'' \<and> \<not> startswith (lower usl) ''t'' \<and> \<not> startswith (lower usl) ''f''
          then Inl (ValueError parse_bool_message)
          else submit_metadata_manifest env m
                 \<lparr>sk_path_to_json_ld = url, sk_manifest_path = temp_path, sk_dataset_id = ds,
                  sk_validate_component =
                    (if data_type_arg = Some ''None'' then None else data_type_arg),
                  sk_access_token = tok,
                  sk_manifest_record_type =
                    (case manifest_record_type of None \<Rightarrow> ''table_file_and_entities''
                     | Some v \<Rightarrow> if v = [] then ''table_file_and_entities'' else v),
                  sk_restrict_rules = restrict,
                  sk_table_manipulation =
                    (case table_manipulation of None \<Rightarrow> ''replace''
                     | Some v \<Rightarrow> if v = [] then ''replace'' else v),
                  sk_use_schema_label = (usl = ''None'' \<or> startswith (lower usl) ''t'')\<rparr>)"
    using assms
    by (auto simp add: submit_manifest_route_def and_then_def lookup_key_def
        use_schema_label_of_def parse_bool_def default_to_def truthy_opt_def truthy_def Let_def
        split: option.splits)
  then show ?thesis
    using startswith_lower_t [of usl] startswith_lower_f [of usl] by blast
qed

theorem submission_defaults_witness:
  "config_handler example_pipeline None = Inr () \<and>
   convert_json_str_to_csv example_pipeline ''[]'' ''example_json.csv''
     = Inr ''/tmp/example_json.csv'' \<and>
   request_args example_pipeline ''use_schema_label'' = Some ''None'' \<and>
   parse_bool ''false'' = Inr False \<and>
   submit_manifest_route example_pipeline ''u'' None None (Some ''[]'') None None =
     submit_metadata_manifest example_pipeline ''/tmp/example.model.jsonld''
       \<lparr>sk_path_to_json_ld = ''u'', sk_manifest_path = ''/tmp/example_json.csv'',
        sk_dataset_id = ''syn1'', sk_validate_component = None, sk_access_token = ''token'',
        sk_manifest_record_type = ''table_file_and_entities'', sk_restrict_rules = False,
        sk_table_manipulation = ''replace'', sk_use_schema_label = True\<rparr>"
proof -
  have conv: "(if truthy_opt (Some ''[]'')
          then convert_json_str_to_csv example_pipeline (the (Some ''[]'')) ''example_json.csv''
          else convert_json_file_to_csv example_pipeline ''file_name'')
        = Inr ''/tmp/example_json.csv''"
    by (simp add: truthy_opt_def truthy_def example_pipeline_convert)
  have a1: "request_args example_pipeline ''dataset_id'' = Some ''syn1''"
    by (simp add: example_pipeline_def)
  have a2: "request_args example_pipeline ''restrict_rules'' = Some ''false''"
    by (simp add: example_pipeline_def)
  have pb: "parse_bool ''false'' = Inr False"
    by (simp add: parse_bool_def startswith_lower_t startswith_lower_f)
  have a3: "request_args example_pipeline ''access_token'' = Some ''token''"
    by (simp add: example_pipeline_def)
  have a4: "request_args example_pipeline ''use_schema_label'' = Some ''None''"
    by (simp add: example_pipeline_def)
  from submission_defaults
    [OF example_pipeline_config conv a1 a2 pb example_pipeline_model a3 a4,
      where manifest_record_type = None and table_manipulation = None and data_type_arg = None]
  show ?thesis
    using a4 pb by (simp add: example_pipeline_config example_pipeline_convert)
qed


end
